theory Spec2Isabelle
  imports Main
begin

section \<open>CodeExecutorAgent: data model\<close>

text \<open>
  The module \<^verbatim>\<open>_code_executor_agent.py\<close> defines one class, \<open>CodeExecutorAgent\<close>.
  The message, code-block and result classes it imports live in other modules.

  Modelled from the spec: \<open>ChatMessage\<close> is a polymorphic message type whose only
  relevant variant is \<open>TextMessage\<close>, with a string \<open>content\<close> and a string
  \<open>source\<close>. Every other variant is kept as \<open>OtherMessage\<close> with an arbitrary payload;
  the discriminator \<open>is_TextMessage\<close> is the source's \<^verbatim>\<open>isinstance(msg, TextMessage)\<close>.
\<close>

datatype 'o ChatMessage =
    is_TextMessage: TextMessage (content: string) (source: string)
  | OtherMessage 'o

text \<open>
  Modelled from the spec: a \<open>CodeBlock\<close> carries the body \<open>code\<close> and the fence tag
  \<open>language\<close>.
\<close>

record CodeBlock =
  code :: string
  language :: string

text \<open>
  Modelled from the spec: the executor's result has an \<open>output\<close> string and an exit
  indicator, which the agent never reads.
\<close>

record CodeResult =
  exit_code :: int
  "output" :: string

text \<open>
  Modelled from the spec: a \<open>Response\<close> carries exactly one \<open>chat_message\<close>.
\<close>

datatype 'o Response = Response (chat_message: "'o ChatMessage")

text \<open>
  Modelled from the spec: the cancellation token is an opaque cooperative handle; all
  that can be observed of it is whether it has been cancelled.
\<close>

datatype CancellationToken = CancellationToken (is_cancelled: bool)

text \<open>
  Exceptions are values. \<open>CancelledError\<close> is what an awaited call raises when it is
  cancelled, \<open>ExecutorError\<close> is any other exception of the executor (with its
  message), \<open>TypeError\<close> is what Python raises when a call leaves out a required
  argument, and \<open>ValueError\<close> is what a constructor raises on an argument it refuses.
\<close>

datatype exn = CancelledError | ExecutorError string | TypeError | ValueError

text \<open>
  The classes a message can have, as returned by \<open>produced_message_types\<close>.
\<close>

datatype MessageType = TextMessage_type | OtherMessage_type

subsection \<open>Collaborators\<close>

text \<open>
  \<^verbatim>\<open>extract_markdown_code_blocks\<close> is imported from another package; it is a
  parameter of the model, a total function from a text to the blocks found in it.
\<close>

type_synonym extractor = "string \<Rightarrow> CodeBlock list"

text \<open>
  \<^verbatim>\<open>CodeExecutor.execute_code_blocks\<close> is the injected collaborator. It runs in a world
  \<open>'w\<close> (files, processes, containers) that it may change, and it either returns a
  result or raises.
\<close>

type_synonym 'w CodeExecutor =
  "CodeBlock list \<Rightarrow> CancellationToken \<Rightarrow> 'w \<Rightarrow> (exn + CodeResult) \<times> 'w"

subsection \<open>The agent object\<close>

text \<open>
  The attributes set by \<^verbatim>\<open>BaseChatAgent.__init__\<close> and read back through the
  properties \<open>name\<close> and \<open>description\<close>, extended by the attribute
  \<^verbatim>\<open>_code_executor\<close> of the subclass.
\<close>

record BaseChatAgent =
  name :: string
  description :: string

record 'w CodeExecutorAgent = BaseChatAgent +
  code_executor :: "'w CodeExecutor"

section \<open>Construction\<close>

text \<open>
  The default of the keyword argument \<open>description\<close> (line 65 of the source).
\<close>

definition default_description :: string where
  "default_description =
     ''A computer terminal that performs no other action than running Python scripts (provided to it quoted in ```python code blocks), or sh shell scripts (provided to it quoted in ```sh code blocks).''"

text \<open>
  Modelled from the spec: \<^verbatim>\<open>BaseChatAgent.__init__\<close> is not part of the sources at
  hand. According to the specification construction performs no I/O, and an invalid
  required argument makes it fail at once (section 7): the base initialiser refuses a
  name that is not a valid identifier with \<open>ValueError\<close>, and otherwise stores the name
  and the description. The test for a valid identifier is Python's built-in
  \<^verbatim>\<open>str.isidentifier\<close>; it is the parameter \<open>isidentifier\<close> of the model.
\<close>

definition BaseChatAgent_init ::
  "(string \<Rightarrow> bool) \<Rightarrow> string \<Rightarrow> string \<Rightarrow> 'w \<Rightarrow> (exn + BaseChatAgent) \<times> 'w" where
  "BaseChatAgent_init isidentifier name_arg description_arg w =
     (if isidentifier name_arg
      then (Inr \<lparr>name = name_arg, description = description_arg\<rparr>, w)
      else (Inl ValueError, w))"

text \<open>
  \<^verbatim>\<open>CodeExecutorAgent.__init__(self, name, code_executor, *, description=...)\<close>.
  An argument the caller leaves out is \<open>None\<close>. Python binds the arguments before the
  body runs: a missing \<open>name\<close> or \<open>code_executor\<close> raises \<open>TypeError\<close>, a missing
  \<open>description\<close> takes the default. The body calls the base initialiser, whose
  exception (if any) leaves the constructor, and then stores the executor.
\<close>

definition CodeExecutorAgent_init ::
  "(string \<Rightarrow> bool) \<Rightarrow> string option \<Rightarrow> 'w CodeExecutor option \<Rightarrow> string option \<Rightarrow> 'w
     \<Rightarrow> (exn + 'w CodeExecutorAgent) \<times> 'w" where
  "CodeExecutorAgent_init isidentifier name_arg code_executor_arg description_arg w =
     (case name_arg of
        None \<Rightarrow> (Inl TypeError, w)
      | Some n \<Rightarrow>
          (case code_executor_arg of
             None \<Rightarrow> (Inl TypeError, w)
           | Some ex \<Rightarrow>
               (let d = (case description_arg of None \<Rightarrow> default_description | Some d' \<Rightarrow> d')
                in case BaseChatAgent_init isidentifier n d w of
                     (Inl e, w') \<Rightarrow> (Inl e, w')
                   | (Inr base, w') \<Rightarrow>
                       (Inr \<lparr>name = name base, description = description base,
                             code_executor = ex\<rparr>, w'))))"

section \<open>Operations\<close>

text \<open>
  \<^verbatim>\<open>produced_message_types\<close>: the property returns the list \<^verbatim>\<open>[TextMessage]\<close>.
\<close>

definition produced_message_types :: "'w CodeExecutorAgent \<Rightarrow> MessageType list" where
  "produced_message_types self = [TextMessage_type]"

text \<open>
  The loop of \<open>on_messages\<close> (lines 77 to 80):
  \<^verbatim>\<open>
  for msg in messages:
      if isinstance(msg, TextMessage):
          code_blocks.extend(extract_markdown_code_blocks(msg.content))
  \<close>
  The third argument is \<open>code_blocks\<close> as accumulated so far.
\<close>

fun extract_loop :: "extractor \<Rightarrow> 'o ChatMessage list \<Rightarrow> CodeBlock list \<Rightarrow> CodeBlock list" where
  "extract_loop extract_markdown_code_blocks [] code_blocks = code_blocks"
| "extract_loop extract_markdown_code_blocks (msg # messages) code_blocks =
     (if is_TextMessage msg
      then extract_loop extract_markdown_code_blocks messages
             (code_blocks @ extract_markdown_code_blocks (content msg))
      else extract_loop extract_markdown_code_blocks messages code_blocks)"

text \<open>
  \<^verbatim>\<open>on_messages(self, messages, cancellation_token)\<close>. The state is the agent object
  together with the executor's world; the operation returns its outcome (the
  \<open>Response\<close>, or the exception that leaves the coroutine) and the state afterwards.
  The only call that can raise is the awaited \<^verbatim>\<open>execute_code_blocks\<close>, and no
  \<^verbatim>\<open>try\<close> surrounds it.
\<close>

definition on_messages ::
  "extractor \<Rightarrow> 'o ChatMessage list \<Rightarrow> CancellationToken \<Rightarrow> 'w CodeExecutorAgent \<times> 'w
     \<Rightarrow> (exn + 'o Response) \<times> 'w CodeExecutorAgent \<times> 'w" where
  "on_messages extract_markdown_code_blocks messages cancellation_token st =
     (case st of (self, w) \<Rightarrow>
        (let code_blocks = extract_loop extract_markdown_code_blocks messages []
         in if code_blocks \<noteq> []
            then (case code_executor self code_blocks cancellation_token w of
                    (Inl e, w') \<Rightarrow> (Inl e, self, w')
                  | (Inr result, w') \<Rightarrow>
                      (Inr (Response (TextMessage (output result) (name self))), self, w'))
            else (Inr (Response (TextMessage ''No code blocks found in the thread.''
                                   (name self))), self, w)))"

text \<open>
  \<^verbatim>\<open>on_reset(self, cancellation_token)\<close>: the body is \<^verbatim>\<open>pass\<close>; it returns
  \<^verbatim>\<open>None\<close>.
\<close>

definition on_reset ::
  "CancellationToken \<Rightarrow> 'w CodeExecutorAgent \<times> 'w \<Rightarrow> (exn + unit) \<times> 'w CodeExecutorAgent \<times> 'w" where
  "on_reset cancellation_token st = (case st of (self, w) \<Rightarrow> (Inr (), self, w))"

section \<open>Observing the executor\<close>

text \<open>
  To count the invocations of the executor it is wrapped in a spy, as a test would do:
  the spy runs the executor it wraps and appends the arguments of the call to a log
  kept beside the world.
\<close>

type_synonym executor_call = "CodeBlock list \<times> CancellationToken"

definition spy :: "'w CodeExecutor \<Rightarrow> ('w \<times> executor_call list) CodeExecutor" where
  "spy exec code_blocks cancellation_token st =
     (case st of (w, calls) \<Rightarrow>
        (case exec code_blocks cancellation_token w of
           (r, w') \<Rightarrow> (r, (w', calls @ [(code_blocks, cancellation_token)]))))"

definition with_spy :: "'w CodeExecutorAgent \<Rightarrow> ('w \<times> executor_call list) CodeExecutorAgent" where
  "with_spy self =
     \<lparr>name = name self, description = description self,
      code_executor = spy (code_executor self)\<rparr>"

text \<open>
  The combined sequence of code blocks as the specification words it: message order
  first, block order within a message second, messages of other variants contributing
  nothing.
\<close>

definition blocks_of_message :: "extractor \<Rightarrow> 'o ChatMessage \<Rightarrow> CodeBlock list" where
  "blocks_of_message extract msg =
     (case msg of TextMessage c s \<Rightarrow> extract c | OtherMessage x \<Rightarrow> [])"

definition combined_code_blocks_spec :: "extractor \<Rightarrow> 'o ChatMessage list \<Rightarrow> CodeBlock list" where
  "combined_code_blocks_spec extract messages = concat (map (blocks_of_message extract) messages)"


section \<open>Test doubles\<close>

text \<open>
  Concrete collaborators on which the operations are run: three code blocks, an
  extractor that finds two blocks in the text \<open>''A''\<close>, one in \<open>''B''\<close> and none
  elsewhere, an executor that honours the cancellation token, echoes the code it is
  given with a non-zero exit code and counts its runs in the world, and an executor
  that always raises.
\<close>

definition a1 :: CodeBlock where
  "a1 = \<lparr>code = ''x = 1'', language = ''python''\<rparr>"

definition a2 :: CodeBlock where
  "a2 = \<lparr>code = ''print(x)'', language = ''python''\<rparr>"

definition b1 :: CodeBlock where
  "b1 = \<lparr>code = ''ls'', language = ''sh''\<rparr>"

definition stub_extract :: extractor where
  "stub_extract text = (if text = ''A'' then [a1, a2] else if text = ''B'' then [b1] else [])"

definition echo_executor :: "nat CodeExecutor" where
  "echo_executor code_blocks cancellation_token n =
     (if is_cancelled cancellation_token then (Inl CancelledError, n)
      else (Inr \<lparr>exit_code = 1, output = concat (map code code_blocks)\<rparr>, Suc n))"

definition failing_executor :: "nat CodeExecutor" where
  "failing_executor code_blocks cancellation_token n =
     (Inl (ExecutorError ''container is not running''), Suc n)"

text \<open>
  \<^verbatim>\<open>str.isidentifier\<close> on ASCII text: not empty, a letter or an underscore first,
  then letters, digits and underscores.
\<close>

definition ascii_isidentifier :: "string \<Rightarrow> bool" where
  "ascii_isidentifier s =
     (case s of
        [] \<Rightarrow> False
      | c # cs \<Rightarrow>
          c \<in> set ''_abcdefghijklmnopqrstuvwxyzABCDEFGHIJKLMNOPQRSTUVWXYZ''
          \<and> list_all
               (\<lambda>c'. c' \<in> set ''_abcdefghijklmnopqrstuvwxyzABCDEFGHIJKLMNOPQRSTUVWXYZ0123456789'')
               cs)"

definition echo_agent :: "nat CodeExecutorAgent" where
  "echo_agent = \<lparr>name = ''code_executor'', description = default_description,
                  code_executor = echo_executor\<rparr>"

definition failing_agent :: "nat CodeExecutorAgent" where
  "failing_agent = \<lparr>name = ''code_executor'', description = default_description,
                     code_executor = failing_executor\<rparr>"

section \<open>Properties of the loop and of the operations\<close>

lemma extract_loop_acc:
  "extract_loop ex messages acc = acc @ extract_loop ex messages []"
proof (induction messages arbitrary: acc)
  case Nil
  show ?case by simp
next
  case (Cons msg messages)
  show ?case
  proof (cases "is_TextMessage msg")
    case True
    have "extract_loop ex (msg # messages) acc = extract_loop ex messages (acc @ ex (content msg))"
      using True by simp
    also have "\<dots> = (acc @ ex (content msg)) @ extract_loop ex messages []"
      by (rule Cons.IH)
    also have "\<dots> = acc @ extract_loop ex messages ([] @ ex (content msg))"
      using Cons.IH [of "[] @ ex (content msg)"] by simp
    finally show ?thesis using True by simp
  next
    case False
    then show ?thesis using Cons.IH [of acc] by simp
  qed
qed

lemma extract_loop_Cons:
  "extract_loop ex (msg # messages) [] = blocks_of_message ex msg @ extract_loop ex messages []"
  using extract_loop_acc [of ex messages "ex (content msg)"]
  by (cases msg) (simp_all add: blocks_of_message_def)

lemma extract_loop_spec:
  "extract_loop ex messages [] = combined_code_blocks_spec ex messages"
  by (induction messages) (simp_all add: combined_code_blocks_spec_def extract_loop_Cons del: extract_loop.simps(2))

lemma extract_loop_filter:
  "extract_loop ex (filter is_TextMessage messages) acc = extract_loop ex messages acc"
  by (induction messages arbitrary: acc) simp_all

lemma extract_loop_no_text:
  "\<forall>m \<in> set messages. \<not> is_TextMessage m \<Longrightarrow> extract_loop ex messages acc = acc"
  by (induction messages arbitrary: acc) simp_all

lemma on_messages_blocks:
  assumes "extract_loop ex messages [] \<noteq> []"
  shows "on_messages ex messages tok (self, w) =
     (case code_executor self (extract_loop ex messages []) tok w of
        (Inl e, w') \<Rightarrow> (Inl e, self, w')
      | (Inr result, w') \<Rightarrow>
          (Inr (Response (TextMessage (output result) (name self))), self, w'))"
  using assms by (simp add: on_messages_def Let_def)

lemma on_messages_no_blocks:
  assumes "extract_loop ex messages [] = []"
  shows "on_messages ex messages tok (self, w) =
     (Inr (Response (TextMessage ''No code blocks found in the thread.'' (name self))), self, w)"
  using assms by (simp add: on_messages_def Let_def)

lemma with_spy_sel [simp]:
  "name (with_spy self) = name self"
  "description (with_spy self) = description self"
  "code_executor (with_spy self) = spy (code_executor self)"
  by (simp_all add: with_spy_def)

lemma spy_result:
  "exec code_blocks tok w = (r, w') \<Longrightarrow>
   spy exec code_blocks tok (w, calls) = (r, (w', calls @ [(code_blocks, tok)]))"
  by (simp add: spy_def)

lemma on_messages_agent_unchanged:
  "fst (snd (on_messages ex messages tok (self, w))) = self"
  by (simp add: on_messages_def Let_def split: prod.splits sum.splits)

section \<open>The claims\<close>

text \<open>
  C1. When at least one code block is extracted, \<open>on_messages\<close> calls the executor
  exactly once, with the whole combined sequence of blocks and the cancellation token
  it was given, and when that call returns a result the reply is a \<open>TextMessage\<close> whose
  content is the result's output (whatever its exit code) and whose source is the
  agent's name.
\<close>

theorem on_messages_executes_blocks_once:
  assumes "combined_code_blocks_spec ex messages \<noteq> []"
    and "code_executor self (combined_code_blocks_spec ex messages) tok w = (Inr result, w')"
  shows "on_messages ex messages tok (with_spy self, (w, calls)) =
           (Inr (Response (TextMessage (output result) (name self))), with_spy self,
            (w', calls @ [(combined_code_blocks_spec ex messages, tok)]))"
proof -
  have loop: "extract_loop ex messages [] = combined_code_blocks_spec ex messages"
    by (rule extract_loop_spec)
  have "code_executor (with_spy self) (combined_code_blocks_spec ex messages) tok (w, calls) =
          (Inr result, (w', calls @ [(combined_code_blocks_spec ex messages, tok)]))"
    using assms(2) by (simp add: spy_result)
  then show ?thesis
    using assms(1) by (simp add: on_messages_blocks loop)
qed

theorem on_messages_executes_blocks_once_witness:
  "combined_code_blocks_spec stub_extract
     [TextMessage ''A'' ''alice'', OtherMessage (0::nat), TextMessage ''B'' ''bob''] = [a1, a2, b1]
   \<and> on_messages stub_extract
       [TextMessage ''A'' ''alice'', OtherMessage (0::nat), TextMessage ''B'' ''bob'']
       (CancellationToken False) (with_spy echo_agent, (0, [])) =
     (Inr (Response (TextMessage ''x = 1print(x)ls'' ''code_executor'')), with_spy echo_agent,
      (Suc 0, [([a1, a2, b1], CancellationToken False)]))"
proof -
  let ?ms = "[TextMessage ''A'' ''alice'', OtherMessage (0::nat), TextMessage ''B'' ''bob'']"
  have blocks: "combined_code_blocks_spec stub_extract ?ms = [a1, a2, b1]"
    by (simp add: combined_code_blocks_spec_def blocks_of_message_def stub_extract_def)
  have "code_executor echo_agent [a1, a2, b1] (CancellationToken False) 0 =
          (Inr \<lparr>exit_code = 1, output = ''x = 1print(x)ls''\<rparr>, Suc 0)"
    by (simp add: echo_agent_def echo_executor_def a1_def a2_def b1_def)
  then have run: "code_executor echo_agent (combined_code_blocks_spec stub_extract ?ms)
                    (CancellationToken False) 0 =
               (Inr \<lparr>exit_code = 1, output = ''x = 1print(x)ls''\<rparr>, Suc 0)"
    by (simp only: blocks)
  have ne: "combined_code_blocks_spec stub_extract ?ms \<noteq> []"
    unfolding blocks by simp
  have n: "name echo_agent = ''code_executor''"
    by (simp add: echo_agent_def)
  show ?thesis
    using on_messages_executes_blocks_once [OF ne run, of "[]"] blocks
    unfolding blocks n by simp
qed

text \<open>
  C2. The sequence of blocks the executor receives is the concatenation, in message
  order, of the blocks of each message in their order within the message.
\<close>

theorem executor_receives_blocks_in_order:
  "snd (snd (snd (on_messages ex messages tok (with_spy self, (w, []))))) =
     (if combined_code_blocks_spec ex messages = [] then []
      else [(combined_code_blocks_spec ex messages, tok)])"
proof (cases "extract_loop ex messages [] = []")
  case True
  then show ?thesis
    using extract_loop_spec [of ex messages] by (simp add: on_messages_no_blocks)
next
  case False
  obtain r w' where run: "code_executor self (extract_loop ex messages []) tok w = (r, w')"
    by (cases "code_executor self (extract_loop ex messages []) tok w")
  have "code_executor (with_spy self) (extract_loop ex messages []) tok (w, []) =
          (r, (w', [(extract_loop ex messages [], tok)]))"
    using run by (simp add: spy_result)
  then have "snd (snd (snd (on_messages ex messages tok (with_spy self, (w, []))))) =
               [(extract_loop ex messages [], tok)]"
    using False by (cases r) (simp_all add: on_messages_blocks)
  then show ?thesis
    using False extract_loop_spec [of ex messages] by simp
qed

theorem executor_receives_blocks_in_order_witness:
  "snd (snd (snd (on_messages stub_extract
       [TextMessage ''A'' ''alice'', TextMessage ''B'' ''bob'' :: nat ChatMessage]
       (CancellationToken False) (with_spy echo_agent, (0, []))))) =
     [([a1, a2, b1], CancellationToken False)]"
  using executor_receives_blocks_in_order
    [of stub_extract "[TextMessage ''A'' ''alice'', TextMessage ''B'' ''bob'' :: nat ChatMessage]"
        "CancellationToken False" echo_agent 0]
  by (simp add: combined_code_blocks_spec_def blocks_of_message_def stub_extract_def)

text \<open>
  C3. When no code block is extracted, \<open>on_messages\<close> replies with the fixed text
  \<open>No code blocks found in the thread.\<close> under the agent's name, and the executor is
  not called: its world and the log of its calls are as before.
\<close>

theorem on_messages_without_code_blocks:
  assumes "extract_loop ex messages [] = []"
  shows "on_messages ex messages tok (with_spy self, (w, calls)) =
           (Inr (Response (TextMessage ''No code blocks found in the thread.'' (name self))),
            with_spy self, (w, calls))"
  using assms by (simp add: on_messages_no_blocks)

theorem on_messages_without_code_blocks_witness:
  "on_messages stub_extract ([] :: nat ChatMessage list) (CancellationToken False)
       (with_spy echo_agent, (0, [])) =
     (Inr (Response (TextMessage ''No code blocks found in the thread.'' ''code_executor'')),
      with_spy echo_agent, (0, []))
   \<and> on_messages stub_extract [OtherMessage (1::nat), OtherMessage 2] (CancellationToken False)
       (with_spy echo_agent, (0, [])) =
     (Inr (Response (TextMessage ''No code blocks found in the thread.'' ''code_executor'')),
      with_spy echo_agent, (0, []))
   \<and> on_messages stub_extract [TextMessage ''thanks'' ''alice'', OtherMessage (1::nat)]
       (CancellationToken False) (with_spy echo_agent, (0, [])) =
     (Inr (Response (TextMessage ''No code blocks found in the thread.'' ''code_executor'')),
      with_spy echo_agent, (0, []))"
proof -
  have e1: "extract_loop stub_extract ([] :: nat ChatMessage list) [] = []"
    by simp
  have e2: "extract_loop stub_extract [OtherMessage (1::nat), OtherMessage 2] [] = []"
    by (rule extract_loop_no_text) simp
  have e3: "extract_loop stub_extract [TextMessage ''thanks'' ''alice'', OtherMessage (1::nat)] [] = []"
    by (simp add: stub_extract_def)
  have n: "name echo_agent = ''code_executor''"
    by (simp add: echo_agent_def)
  show ?thesis
    using on_messages_without_code_blocks [OF e1, of "CancellationToken False" echo_agent 0 "[]"]
      on_messages_without_code_blocks [OF e2, of "CancellationToken False" echo_agent 0 "[]"]
      on_messages_without_code_blocks [OF e3, of "CancellationToken False" echo_agent 0 "[]"]
    by (simp only: n simp_thms)
qed

text \<open>
  C4. When the executor raises (an error of its own, or the cancellation), the same
  exception leaves \<open>on_messages\<close>: there is no reply, and the executor has been called
  once, not again.
\<close>

theorem executor_failure_propagates:
  assumes "extract_loop ex messages [] \<noteq> []"
    and "code_executor self (extract_loop ex messages []) tok w = (Inl e, w')"
  shows "on_messages ex messages tok (with_spy self, (w, calls)) =
           (Inl e, with_spy self, (w', calls @ [(extract_loop ex messages [], tok)]))"
proof -
  have "code_executor (with_spy self) (extract_loop ex messages []) tok (w, calls) =
          (Inl e, (w', calls @ [(extract_loop ex messages [], tok)]))"
    using assms(2) by (simp add: spy_result)
  then show ?thesis
    using assms(1) by (simp add: on_messages_blocks)
qed

theorem executor_failure_propagates_witness:
  "on_messages stub_extract [TextMessage ''B'' ''bob'' :: nat ChatMessage] (CancellationToken False)
       (with_spy failing_agent, (0, [])) =
     (Inl (ExecutorError ''container is not running''), with_spy failing_agent,
      (Suc 0, [([b1], CancellationToken False)]))
   \<and> on_messages stub_extract [TextMessage ''B'' ''bob'' :: nat ChatMessage] (CancellationToken True)
       (with_spy echo_agent, (0, [])) =
     (Inl CancelledError, with_spy echo_agent, (0, [([b1], CancellationToken True)]))"
proof -
  let ?ms = "[TextMessage ''B'' ''bob'' :: nat ChatMessage]"
  have blocks: "extract_loop stub_extract ?ms [] = [b1]"
    by (simp add: stub_extract_def)
  have ne: "extract_loop stub_extract ?ms [] \<noteq> []"
    unfolding blocks by simp
  have fail: "code_executor failing_agent (extract_loop stub_extract ?ms []) (CancellationToken False) 0 =
                (Inl (ExecutorError ''container is not running''), Suc 0)"
    by (simp only: failing_agent_def failing_executor_def CodeExecutorAgent.simps)
  have cancel: "code_executor echo_agent (extract_loop stub_extract ?ms []) (CancellationToken True) 0 =
                  (Inl CancelledError, 0)"
    by (simp only: echo_agent_def echo_executor_def CodeExecutorAgent.simps
          CancellationToken.sel if_True)
  show ?thesis
    using executor_failure_propagates [OF ne fail, of "[]"]
      executor_failure_propagates [OF ne cancel, of "[]"]
    unfolding blocks by simp
qed

text \<open>
  C5. Messages that are not \<open>TextMessage\<close> are skipped by the loop: they add no code
  block, and \<open>on_messages\<close> does on a sequence exactly what it does on the subsequence
  of its \<open>TextMessage\<close> entries, so such a message can neither change the reply nor
  make the call fail.
\<close>

theorem non_text_messages_ignored:
  "extract_loop ex messages acc = extract_loop ex (filter is_TextMessage messages) acc
   \<and> on_messages ex messages tok st = on_messages ex (filter is_TextMessage messages) tok st"
  by (simp add: on_messages_def extract_loop_filter)

theorem non_text_messages_ignored_witness:
  "on_messages stub_extract
       [OtherMessage (3::nat), TextMessage ''B'' ''bob'', OtherMessage 4]
       (CancellationToken False) (echo_agent, 0) =
     on_messages stub_extract [TextMessage ''B'' ''bob''] (CancellationToken False) (echo_agent, 0)"
  using non_text_messages_ignored
    [of stub_extract "[OtherMessage (3::nat), TextMessage ''B'' ''bob'', OtherMessage 4]" "[]"
        "CancellationToken False" "(echo_agent, 0)"]
  by simp

text \<open>
  C6. \<open>on_reset\<close> returns normally for every cancellation token and leaves the agent
  and the world as they were, so an \<open>on_messages\<close> that follows it returns what it
  would have returned without it.
\<close>

theorem on_reset_is_noop:
  "on_reset tok' (self, w) = (Inr (), self, w)
   \<and> on_messages ex messages tok (snd (on_reset tok' (self, w))) =
       on_messages ex messages tok (self, w)"
  by (simp add: on_reset_def)

theorem on_reset_is_noop_witness:
  "on_reset (CancellationToken True) (echo_agent, 5) = (Inr (), echo_agent, 5)
   \<and> on_messages stub_extract [TextMessage ''A'' ''alice'' :: nat ChatMessage] (CancellationToken False)
         (snd (on_reset (CancellationToken True) (echo_agent, 5))) =
       on_messages stub_extract [TextMessage ''A'' ''alice''] (CancellationToken False) (echo_agent, 5)"
  using on_reset_is_noop
    [of "CancellationToken True" echo_agent 5 stub_extract
        "[TextMessage ''A'' ''alice'' :: nat ChatMessage]" "CancellationToken False"]
  by simp

text \<open>
  C7. \<open>produced_message_types\<close> returns the one-element collection holding
  \<open>TextMessage\<close>, whatever the agent was constructed with and whatever calls of
  \<open>on_messages\<close> or \<open>on_reset\<close> came before.
\<close>

theorem produced_message_types_is_TextMessage:
  "produced_message_types self = [TextMessage_type]
   \<and> set (produced_message_types self) = {TextMessage_type}
   \<and> produced_message_types \<lparr>name = n, description = d, code_executor = exec\<rparr> = [TextMessage_type]
   \<and> produced_message_types (fst (snd (on_messages ex messages tok (self, w)))) = [TextMessage_type]
   \<and> produced_message_types (fst (snd (on_reset tok (self, w)))) = [TextMessage_type]"
  by (simp add: produced_message_types_def)

text \<open>
  C8. The outcome of \<open>on_messages\<close> depends on the world only through what the
  executor answers: in two worlds in which the executor answers alike, equal messages
  and equal tokens give equal outcomes, and the agent object is not changed by the
  call.
\<close>

theorem on_messages_deterministic:
  assumes "\<forall>code_blocks. fst (code_executor self code_blocks tok w1) =
                          fst (code_executor self code_blocks tok w2)"
  shows "fst (on_messages ex messages tok (self, w1)) = fst (on_messages ex messages tok (self, w2))
         \<and> fst (snd (on_messages ex messages tok (self, w1))) = self"
proof -
  let ?bs = "extract_loop ex messages []"
  have same: "fst (code_executor self ?bs tok w1) = fst (code_executor self ?bs tok w2)"
    using assms by blast
  have "fst (on_messages ex messages tok (self, w1)) = fst (on_messages ex messages tok (self, w2))"
  proof (cases "?bs = []")
    case True
    then show ?thesis by (simp add: on_messages_no_blocks)
  next
    case False
    obtain r1 v1 where run1: "code_executor self ?bs tok w1 = (r1, v1)"
      by (cases "code_executor self ?bs tok w1")
    obtain r2 v2 where run2: "code_executor self ?bs tok w2 = (r2, v2)"
      by (cases "code_executor self ?bs tok w2")
    have "r1 = r2"
      using same run1 run2 by simp
    then show ?thesis
      using False run1 run2 by (cases r2) (simp_all add: on_messages_blocks)
  qed
  then show ?thesis
    by (simp add: on_messages_agent_unchanged)
qed

theorem on_messages_deterministic_witness:
  "fst (on_messages stub_extract [TextMessage ''A'' ''alice'' :: nat ChatMessage]
          (CancellationToken False) (echo_agent, 0)) =
     fst (on_messages stub_extract [TextMessage ''A'' ''alice''] (CancellationToken False) (echo_agent, 7))
   \<and> fst (snd (on_messages stub_extract [TextMessage ''A'' ''alice'' :: nat ChatMessage]
          (CancellationToken False) (echo_agent, 0))) = echo_agent"
proof -
  have alike: "\<forall>code_blocks. fst (code_executor echo_agent code_blocks (CancellationToken False) 0) =
                              fst (code_executor echo_agent code_blocks (CancellationToken False) 7)"
    by (simp add: echo_agent_def echo_executor_def)
  show ?thesis
    using on_messages_deterministic [OF alike] by blast
qed

text \<open>
  C9, as stated, says that construction fails only when a required argument is
  missing. It also fails when both are present and the name is refused: a name with a
  space in it, or the empty name, raises \<open>ValueError\<close>.
\<close>

theorem CodeExecutorAgent_init_invalid_name_counterexample:
  "fst (CodeExecutorAgent_init ascii_isidentifier (Some ''code executor'') (Some echo_executor)
          None (0::nat)) = Inl ValueError
   \<and> fst (CodeExecutorAgent_init ascii_isidentifier (Some []) (Some echo_executor)
          (Some ''runs code'') (0::nat)) = Inl ValueError"
  by (simp add: CodeExecutorAgent_init_def BaseChatAgent_init_def ascii_isidentifier_def)

text \<open>
  C9, amended. The constructor needs a name and an executor; the description may be
  left out and is then the fixed text about running \<open>python\<close> and \<open>sh\<close> blocks.
  Construction leaves the world alone, and it fails exactly when a required argument is
  missing (\<open>TypeError\<close>) or the name is not a valid identifier (\<open>ValueError\<close>).
\<close>

theorem CodeExecutorAgent_init_arguments:
  "(isidentifier n \<longrightarrow>
      CodeExecutorAgent_init isidentifier (Some n) (Some exec) None w =
        (Inr \<lparr>name = n,
              description = ''A computer terminal that performs no other action than running Python scripts (provided to it quoted in ```python code blocks), or sh shell scripts (provided to it quoted in ```sh code blocks).'',
              code_executor = exec\<rparr>, w))
   \<and> (isidentifier n \<longrightarrow>
      CodeExecutorAgent_init isidentifier (Some n) (Some exec) (Some d) w =
        (Inr \<lparr>name = n, description = d, code_executor = exec\<rparr>, w))
   \<and> snd (CodeExecutorAgent_init isidentifier name_arg code_executor_arg description_arg w) = w
   \<and> ((\<exists>e. fst (CodeExecutorAgent_init isidentifier name_arg code_executor_arg
                   description_arg w) = Inl e)
        = (name_arg = None \<or> code_executor_arg = None
           \<or> (\<exists>n'. name_arg = Some n' \<and> \<not> isidentifier n')))
   \<and> fst (CodeExecutorAgent_init isidentifier None code_executor_arg description_arg w) =
        Inl TypeError
   \<and> fst (CodeExecutorAgent_init isidentifier name_arg None description_arg w) = Inl TypeError
   \<and> (\<not> isidentifier n \<longrightarrow>
        fst (CodeExecutorAgent_init isidentifier (Some n) (Some exec) description_arg w) =
          Inl ValueError)"
  by (simp add: CodeExecutorAgent_init_def BaseChatAgent_init_def default_description_def
        split: option.splits)

theorem CodeExecutorAgent_init_arguments_witness:
  "ascii_isidentifier ''code_executor''
   \<and> CodeExecutorAgent_init ascii_isidentifier (Some ''code_executor'') (Some echo_executor)
       None (0::nat) =
     (Inr \<lparr>name = ''code_executor'',
           description = ''A computer terminal that performs no other action than running Python scripts (provided to it quoted in ```python code blocks), or sh shell scripts (provided to it quoted in ```sh code blocks).'',
           code_executor = echo_executor\<rparr>, 0)
   \<and> CodeExecutorAgent_init ascii_isidentifier (Some ''code_executor'') (Some echo_executor)
       (Some ''runs code'') (0::nat) =
     (Inr \<lparr>name = ''code_executor'', description = ''runs code'',
           code_executor = echo_executor\<rparr>, 0)
   \<and> \<not> ascii_isidentifier ''2nd_agent''
   \<and> fst (CodeExecutorAgent_init ascii_isidentifier (Some ''2nd_agent'') (Some echo_executor)
       None (0::nat)) = Inl ValueError"
proof -
  have ok: "ascii_isidentifier ''code_executor''"
    by (simp add: ascii_isidentifier_def)
  have bad: "\<not> ascii_isidentifier ''2nd_agent''"
    by (simp add: ascii_isidentifier_def)
  show ?thesis
    using ok bad
      CodeExecutorAgent_init_arguments
        [of ascii_isidentifier "''code_executor''" echo_executor "0::nat" "''runs code''"]
      CodeExecutorAgent_init_arguments
        [of ascii_isidentifier "''2nd_agent''" echo_executor "0::nat" _ _ _ None]
    by blast
qed

text \<open>
  C10. When no code block is extracted the cancellation token plays no part: the
  reply is the fixed one for any two tokens, a cancelled one included, and the token is
  not handed to the executor, which is not called.
\<close>

theorem no_blocks_ignores_cancellation:
  assumes "extract_loop ex messages [] = []"
  shows "on_messages ex messages tok1 (with_spy self, (w, calls)) =
           on_messages ex messages tok2 (with_spy self, (w, calls))
         \<and> fst (on_messages ex messages tok1 (with_spy self, (w, calls))) =
             Inr (Response (TextMessage ''No code blocks found in the thread.'' (name self)))
         \<and> snd (snd (on_messages ex messages tok1 (with_spy self, (w, calls)))) = (w, calls)"
  using assms by (simp add: on_messages_no_blocks)

theorem no_blocks_ignores_cancellation_witness:
  "on_messages stub_extract [TextMessage ''hello'' ''alice'' :: nat ChatMessage]
       (CancellationToken True) (with_spy echo_agent, (0, [])) =
     on_messages stub_extract [TextMessage ''hello'' ''alice''] (CancellationToken False)
       (with_spy echo_agent, (0, []))
   \<and> fst (on_messages stub_extract [TextMessage ''hello'' ''alice'' :: nat ChatMessage]
       (CancellationToken True) (with_spy echo_agent, (0, []))) =
     Inr (Response (TextMessage ''No code blocks found in the thread.'' ''code_executor''))
   \<and> snd (snd (on_messages stub_extract [TextMessage ''hello'' ''alice'' :: nat ChatMessage]
       (CancellationToken True) (with_spy echo_agent, (0, [])))) = (0, [])"
proof -
  have none: "extract_loop stub_extract [TextMessage ''hello'' ''alice'' :: nat ChatMessage] [] = []"
    by (simp add: stub_extract_def)
  have n: "name echo_agent = ''code_executor''"
    by (simp add: echo_agent_def)
  show ?thesis
    using no_blocks_ignores_cancellation
      [OF none, of "CancellationToken True" echo_agent 0 "[]" "CancellationToken False"]
    unfolding n by blast
qed

end
